theory Spec2Isabelle
  imports Main "HOL-Library.AList"
begin

section \<open>CmdBell: event correlation and notification dispatch\<close>

text \<open>
  A shallow embedding of the Go sources of CmdBell: the notifier (\<open>notification.go\<close>),
  the Docker exec correlator (\<open>docker_monitor.go\<close>), the HTTP ingress
  (\<open>http_server.go\<close>) and the direct-execution path (\<open>main.go\<close>).

  Everything a function does besides returning is made explicit. A function that prints,
  logs or calls the operating system returns the list of these effects in program order;
  a function that mutates the monitor takes it and returns the new one; a Go panic is the
  \<open>Inl\<close> branch of a sum. What the environment decides (the wall clock, the outcome of
  \<open>docker inspect\<close>, of the native notification tools, of the child process, and the
  standard library's \<open>time.ParseDuration\<close>) is a parameter of the function that asks for it.
\<close>

subsection \<open>Package \<open>time\<close>\<close>

text \<open>
  A \<open>time.Time\<close> is an instant, counted here in nanoseconds from the zero value of the type
  (January 1 of year 1, 00:00:00 UTC). A \<open>time.Duration\<close> is an \<open>int64\<close> of nanoseconds;
  it is an \<open>int\<close> here, and the saturation that the library applies where a result leaves
  the \<open>int64\<close> range is written out.
\<close>

type_synonym Time = int
type_synonym Duration = int

definition zeroTime :: Time where
  "zeroTime = 0"

definition Second :: Duration where
  "Second = 1000000000"

definition maxDuration :: Duration where
  "maxDuration = 9223372036854775807"

definition minDuration :: Duration where
  "minDuration = - 9223372036854775808"

text \<open>\<open>t.Sub(u)\<close>: the difference, or the largest (smallest) duration when it does not fit.\<close>

definition time_Sub :: "Time \<Rightarrow> Time \<Rightarrow> Duration" where
  "time_Sub t u =
     (if maxDuration < t - u then maxDuration
      else if t - u < minDuration then minDuration
      else t - u)"

text \<open>\<open>time.Since(t)\<close> is \<open>time.Now().Sub(t)\<close>; the reading of the clock is \<open>now\<close>.\<close>

definition time_Since :: "Time \<Rightarrow> Time \<Rightarrow> Duration" where
  "time_Since now t = time_Sub now t"

text \<open>
  \<open>d.Round(m)\<close>: the nearest multiple of \<open>m\<close>, halves away from zero; \<open>d\<close> itself when
  \<open>m \<le> 0\<close>; the largest (smallest) duration when the rounded value does not fit. Go's
  \<open>%\<close> truncates, so the remainder of a negative \<open>d\<close> is taken on \<open>- d\<close>.
\<close>

definition lessThanHalf :: "Duration \<Rightarrow> Duration \<Rightarrow> bool" where
  "lessThanHalf x y = (x + x < y)"

definition Duration_Round :: "Duration \<Rightarrow> Duration \<Rightarrow> Duration" where
  "Duration_Round d m =
     (if m \<le> 0 then d
      else if d < 0 then
        (let r = (- d) mod m in
         if lessThanHalf r m then d + r
         else if minDuration \<le> d - m + r then d - m + r
         else minDuration)
      else
        (let r = d mod m in
         if lessThanHalf r m then d - r
         else if d + m - r \<le> maxDuration then d + m - r
         else maxDuration))"

text \<open>
  \<open>d.String()\<close>, as the library formats it: hours, minutes and seconds with the fraction
  of a second cut after its last digit that is not zero (\<open>1h2m3.5s\<close>, \<open>20s\<close>); below one
  second the unit is \<open>ms\<close>, the micro sign followed by \<open>s\<close>, or \<open>ns\<close>; zero is \<open>0s\<close>. The
  library writes the digits from the right into a buffer; the buffer here is the text
  already written, and each function returns it with its digits in front. The unsigned
  magnitude \<open>u\<close> of the library is the absolute value.
\<close>

function fmtInt_loop :: "int \<Rightarrow> string \<Rightarrow> string" where
  "fmtInt_loop v buf =
     (if v \<le> 0 then buf else fmtInt_loop (v div 10) (char_of (48 + v mod 10) # buf))"
  by pat_completeness auto
termination
  by (relation "measure (\<lambda>(v, buf). nat v)") auto

declare fmtInt_loop.simps [simp del]

definition fmtInt :: "string \<Rightarrow> int \<Rightarrow> string" where
  "fmtInt buf v = (if v = 0 then CHR ''0'' # buf else fmtInt_loop v buf)"

primrec fmtFrac_loop :: "nat \<Rightarrow> int \<Rightarrow> bool \<Rightarrow> string \<Rightarrow> string \<times> int \<times> bool" where
  "fmtFrac_loop 0 v print buf = (buf, v, print)"
| "fmtFrac_loop (Suc i) v print buf =
     (let digit = v mod 10;
          print' = (print \<or> digit \<noteq> 0)
      in fmtFrac_loop i (v div 10) print'
           (if print' then char_of (48 + digit) # buf else buf))"

definition fmtFrac :: "string \<Rightarrow> int \<Rightarrow> nat \<Rightarrow> string \<times> int" where
  "fmtFrac buf v prec =
     (case fmtFrac_loop prec v False buf of
        (buf', v', print) \<Rightarrow> ((if print then CHR ''.'' # buf' else buf'), v'))"

definition Duration_String :: "Duration \<Rightarrow> string" where
  "Duration_String d =
     (let u = abs d;
          neg = (d < 0)
      in if u < 1000000000 then
           (if u = 0 then ''0s''
            else
              (let unit_prec =
                     (if u < 1000 then (''ns'', 0)
                      else if u < 1000000 then ([CHR 0xC2, CHR 0xB5] @ ''s'', 3)
                      else (''ms'', 6));
                   frac = fmtFrac (fst unit_prec) u (snd unit_prec);
                   buf = fmtInt (fst frac) (snd frac)
               in if neg then CHR ''-'' # buf else buf))
         else
           (let frac = fmtFrac ''s'' u 9;
                u1 = snd frac;
                buf1 = fmtInt (fst frac) (u1 mod 60);
                u2 = u1 div 60;
                buf2 =
                  (if 0 < u2 then
                     (let bufm = fmtInt (CHR ''m'' # buf1) (u2 mod 60);
                          u3 = u2 div 60
                      in if 0 < u3 then fmtInt (CHR ''h'' # bufm) u3 else bufm)
                   else buf1)
            in if neg then CHR ''-'' # buf2 else buf2))"

text \<open>
  The restriction of \<open>time.ParseDuration\<close> to the strings made of decimal digits followed
  by \<open>s\<close> (whole seconds, like \<open>20s\<close>), where it agrees with the library; on any other
  string it answers \<open>None\<close>. The handlers below take the parser as a parameter, and every
  property of them is proved for an arbitrary parser; this fragment instantiates the
  parameter where a concrete request with such a duration is run.
\<close>

fun decimal :: "nat \<Rightarrow> string \<Rightarrow> nat option" where
  "decimal acc [] = Some acc"
| "decimal acc (c # cs) =
     (if 48 \<le> (of_char c :: nat) \<and> (of_char c :: nat) \<le> 57
      then decimal (10 * acc + (of_char c - 48)) cs
      else None)"

definition parse_whole_seconds :: "string \<Rightarrow> Duration option" where
  "parse_whole_seconds s =
     (if length s < 2 \<or> last s \<noteq> CHR ''s'' then None
      else case decimal 0 (butlast s) of
             None \<Rightarrow> None
           | Some v \<Rightarrow> if int v * Second \<le> maxDuration then Some (int v * Second) else None)"

subsection \<open>Configuration (\<open>config.go\<close>)\<close>

record ConfigGeneral =
  MinDuration :: string
  MinDurationTime :: Duration
  EnableNotify :: bool

record ConfigDocker =
  Monitor :: bool
  Filters :: "string list"

record ConfigHTTP =
  Port :: int
  Enabled :: bool

record ConfigNotification =
  Method :: string
  Sound :: bool
  Position :: string

record Config =
  General :: ConfigGeneral
  Docker :: ConfigDocker
  HTTP :: ConfigHTTP
  Notification :: ConfigNotification

definition getDefaultConfig :: Config where
  "getDefaultConfig =
     \<lparr>General = \<lparr>MinDuration = ''15s'', MinDurationTime = 15 * Second, EnableNotify = True\<rparr>,
      Docker = \<lparr>Monitor = True, Filters = []\<rparr>,
      HTTP = \<lparr>Port = 59721, Enabled = True\<rparr>,
      Notification = \<lparr>Method = ''auto'', Sound = True, Position = ''top-right''\<rparr>\<rparr>"

text \<open>The threshold of the direct-execution path, a constant of \<open>main.go\<close>.\<close>

definition MIN_DURATION :: Duration where
  "MIN_DURATION = 15 * Second"

subsection \<open>Effects\<close>

text \<open>
  The two icons are the check-mark and the cross-mark emoji of the source. A message is
  kept as the arguments of its \<open>fmt.Sprintf\<close>: \<open>CommandMessage c st d\<close> stands for
  \<open>Command 'c' st after d\<close> and \<open>ContainerMessage c n st d\<close> for
  \<open>Command 'c' in 'n' st after d\<close>, with \<open>d\<close> the rounded duration that is printed.
\<close>

datatype icon = IconCheck | IconCross

datatype message =
    CommandMessage string string Duration
  | ContainerMessage string string string Duration

text \<open>The bytes of the two emoji (UTF-8), and the text that \<open>fmt.Sprintf\<close> makes of a message.\<close>

fun icon_text :: "icon \<Rightarrow> string" where
  "icon_text IconCheck = [CHR 0xE2, CHR 0x9C, CHR 0x85]"
| "icon_text IconCross = [CHR 0xE2, CHR 0x9D, CHR 0x8C]"

fun message_text :: "message \<Rightarrow> string" where
  "message_text (CommandMessage c st d) =
     ''Command '' @ [CHR 0x27] @ c @ [CHR 0x27] @ '' '' @ st @ '' after '' @ Duration_String d"
| "message_text (ContainerMessage c n st d) =
     ''Command '' @ [CHR 0x27] @ c @ [CHR 0x27] @ '' in '' @ [CHR 0x27] @ n @ [CHR 0x27] @
     '' '' @ st @ '' after '' @ Duration_String d"

declare message_text.simps [simp del]

text \<open>
  One constructor for every place where the source prints, logs, runs an external
  notification tool or leaves the process:
  \<^item> \<open>Printf_Executing\<close>: the line \<open>Executing: command args\<close>;
  \<^item> \<open>Printf_Bell title message\<close>: the console line of a notification;
  \<^item> \<open>Exec name args\<close>: \<open>cmd.Run()\<close> of \<open>exec.Command(name, args...)\<close> in a notification
    backend, one attempt to raise a native alert;
  \<^item> \<open>Printf_NativeFailed err\<close>: the line \<open>Failed to send native notification: err\<close>;
  \<^item> \<open>Log_NameLookupFailed containerID\<close>: \<open>Failed to get container name for ...\<close>;
  \<^item> \<open>Printf_ExecCreated name id12\<close>, \<open>Printf_CommandStarted name\<close>,
    \<open>Printf_CommandCompleted name rounded exitCode\<close>: the progress lines of the monitor;
  \<^item> \<open>Log_InvalidJSON\<close>, \<open>Log_InvalidDuration\<close>, \<open>Log_Received\<close>: the log lines of the
    HTTP handler;
  \<^item> \<open>Exit code\<close>: the end of the process with that exit status.
\<close>

datatype effect =
    Printf_Executing string "string list"
  | Printf_Bell string message
  | Exec string "string list"
  | Printf_NativeFailed string
  | Log_NameLookupFailed string
  | Printf_ExecCreated string string
  | Printf_CommandStarted string
  | Printf_CommandCompleted string Duration string
  | Log_InvalidJSON
  | Log_InvalidDuration string
  | Log_Received string string Duration bool
  | Exit nat

fun is_bell :: "effect \<Rightarrow> bool" where
  "is_bell (Printf_Bell t m) = True"
| "is_bell e = False"

fun is_exec :: "effect \<Rightarrow> bool" where
  "is_exec (Exec name args) = True"
| "is_exec e = False"

fun is_exit :: "effect \<Rightarrow> bool" where
  "is_exit (Exit n) = True"
| "is_exit e = False"

text \<open>The number of notifications dispatched by a run: one console line each.\<close>

definition dispatched :: "effect list \<Rightarrow> nat" where
  "dispatched out = length (filter is_bell out)"


subsection \<open>Notifier (\<open>notification.go\<close>)\<close>

text \<open>
  The platform is what the backends ask the operating system: \<open>runtime.GOOS\<close>, the
  environment (\<open>os.Getenv\<close>), whether \<open>exec.LookPath\<close> finds a tool, and what \<open>cmd.Run()\<close>
  returns for a command line (\<open>None\<close> is the nil error). Every backend returns the tools
  it ran, in order, and its error.
\<close>

record platform =
  GOOS :: string
  Getenv :: "string \<Rightarrow> string"
  LookPath :: "string \<Rightarrow> bool"
  Run :: "string \<Rightarrow> string list \<Rightarrow> string option"

text \<open>\<open>strings.ReplaceAll\<close> for a pattern of one byte.\<close>

definition ReplaceAll :: "string \<Rightarrow> char \<Rightarrow> string \<Rightarrow> string" where
  "ReplaceAll s old new = concat (map (\<lambda>c. if c = old then new else [c]) s)"

definition escapeAppleScript :: "string \<Rightarrow> string" where
  "escapeAppleScript s =
     ReplaceAll (ReplaceAll s (CHR 0x5C) [CHR 0x5C, CHR 0x5C]) (CHR 0x22) [CHR 0x5C, CHR 0x22]"

definition escapeWindowsString :: "string \<Rightarrow> string" where
  "escapeWindowsString s = ReplaceAll s (CHR 0x22) [CHR 0x5C, CHR 0x22]"

definition sendMacOSNotification ::
  "platform \<Rightarrow> string \<Rightarrow> string \<Rightarrow> string \<Rightarrow> effect list \<times> string option" where
  "sendMacOSNotification p title msg icon =
     (let script =
            ''display notification '' @ [CHR 0x22] @ escapeAppleScript msg @ [CHR 0x22] @
            '' with title '' @ [CHR 0x22] @ escapeAppleScript title @ [CHR 0x22] @
            '' subtitle '' @ [CHR 0x22] @ icon @ [CHR 0x22]
      in ([Exec ''osascript'' [''-e'', script]], Run p ''osascript'' [''-e'', script]))"

text \<open>
  One step of the Linux backend: the tool is run when \<open>LookPath\<close> finds it, and the
  backend returns when the run succeeds. The result is the run, if any, and whether it
  succeeded.
\<close>

definition try_tool :: "platform \<Rightarrow> string \<Rightarrow> string list \<Rightarrow> effect list \<times> bool" where
  "try_tool p name args =
     (if LookPath p name then ([Exec name args], Run p name args = None) else ([], False))"

definition sendLinuxNotification ::
  "platform \<Rightarrow> string \<Rightarrow> string \<Rightarrow> string \<Rightarrow> effect list \<times> string option" where
  "sendLinuxNotification p title msg icon =
     (if Getenv p ''DISPLAY'' = [] \<and> Getenv p ''WAYLAND_DISPLAY'' = []
      then ([], Some ''no GUI environment detected (headless mode)'')
      else
        (let first = try_tool p ''notify-send'' [title, msg, ''--icon=info'']
         in if snd first then (fst first, None)
            else
              (let second = try_tool p ''kdialog''
                              [''--passivepopup'', title @ [CHR 0x0A] @ msg, ''5'']
               in if snd second then (fst first @ fst second, None)
                  else
                    (let third = try_tool p ''zenity''
                                   [''--info'', ''--text'', title @ [CHR 0x0A] @ msg,
                                    ''--timeout=5'']
                     in if snd third then (fst first @ fst second @ fst third, None)
                        else (fst first @ fst second @ fst third,
                              Some ''no working notification tool found or GUI not available'')))))"

definition sendWindowsNotification ::
  "platform \<Rightarrow> string \<Rightarrow> string \<Rightarrow> string \<Rightarrow> effect list \<times> string option" where
  "sendWindowsNotification p title msg icon =
     (let script =
            ([CHR 0x0A, CHR 0x09, CHR 0x09] @
             ''Add-Type -AssemblyName System.Windows.Forms;'' @
             [CHR 0x0A, CHR 0x09, CHR 0x09, CHR 0x24] @
             ''balloon = New-Object System.Windows.Forms.NotifyIcon;'' @
             [CHR 0x0A, CHR 0x09, CHR 0x09, CHR 0x24] @ ''balloon.Icon = '' @ [CHR 0x5B] @
             ''System.Drawing.SystemIcons'' @ [CHR 0x5D] @ ''::Information;'' @
             [CHR 0x0A, CHR 0x09, CHR 0x09, CHR 0x24] @ ''balloon.BalloonTipIcon = '' @
             [CHR 0x22] @ ''Info'' @ [CHR 0x22] @ '';'' @
             [CHR 0x0A, CHR 0x09, CHR 0x09, CHR 0x24] @ ''balloon.BalloonTipText = '' @
             [CHR 0x22]) @
            escapeWindowsString msg @
            ([CHR 0x22] @ '';'' @ [CHR 0x0A, CHR 0x09, CHR 0x09, CHR 0x24] @
             ''balloon.BalloonTipTitle = '' @ [CHR 0x22]) @
            escapeWindowsString title @
            ([CHR 0x22] @ '';'' @ [CHR 0x0A, CHR 0x09, CHR 0x09, CHR 0x24] @
             ''balloon.Visible = '' @ [CHR 0x24] @ ''true;'' @
             [CHR 0x0A, CHR 0x09, CHR 0x09, CHR 0x24] @ ''balloon.ShowBalloonTip(5000);'' @
             [CHR 0x0A, CHR 0x09, CHR 0x09] @ ''Start-Sleep -Seconds 6;'' @
             [CHR 0x0A, CHR 0x09, CHR 0x09, CHR 0x24] @ ''balloon.Dispose();'' @
             [CHR 0x0A, CHR 0x09])
      in ([Exec ''powershell'' [''-Command'', script]],
          Run p ''powershell'' [''-Command'', script]))"

definition sendNativeNotification ::
  "platform \<Rightarrow> string \<Rightarrow> string \<Rightarrow> string \<Rightarrow> effect list \<times> string option" where
  "sendNativeNotification p title msg icon =
     (if GOOS p = ''darwin'' then sendMacOSNotification p title msg icon
      else if GOOS p = ''linux'' then sendLinuxNotification p title msg icon
      else if GOOS p = ''windows'' then sendWindowsNotification p title msg icon
      else ([], Some (''unsupported operating system: '' @ GOOS p)))"

definition sendNotification :: "platform \<Rightarrow> string \<Rightarrow> Duration \<Rightarrow> bool \<Rightarrow> effect list" where
  "sendNotification p command duration success =
     (let status = (if \<not> success then ''failed'' else ''completed'');
          icon = (if \<not> success then IconCross else IconCheck);
          title = ''CmdBell'';
          msg = CommandMessage command status (Duration_Round duration Second);
          native = sendNativeNotification p title (message_text msg) (icon_text icon)
      in Printf_Bell title msg # fst native @
         (case snd native of
            Some err \<Rightarrow> [Printf_NativeFailed err]
          | None \<Rightarrow> []))"

definition sendContainerNotification ::
  "platform \<Rightarrow> string \<Rightarrow> string \<Rightarrow> Duration \<Rightarrow> bool \<Rightarrow> effect list" where
  "sendContainerNotification p command containerName duration success =
     (let status = (if \<not> success then ''failed'' else ''completed'');
          icon = (if \<not> success then IconCross else IconCheck);
          title = ''CmdBell - Container'';
          msg = ContainerMessage command containerName status (Duration_Round duration Second);
          native = sendNativeNotification p title (message_text msg) (icon_text icon)
      in Printf_Bell title msg # fst native @
         (case snd native of
            Some err \<Rightarrow> [Printf_NativeFailed err]
          | None \<Rightarrow> []))"

text \<open>A Linux host without a display: the backend gives up before it looks for any tool.\<close>

definition headless_linux :: platform where
  "headless_linux =
     \<lparr>GOOS = ''linux'',
      Getenv = (\<lambda>name. []),
      LookPath = (\<lambda>name. name = ''notify-send''),
      Run = (\<lambda>name args. None)\<rparr>"




subsection \<open>Package \<open>strings\<close>\<close>

definition HasPrefix :: "string \<Rightarrow> string \<Rightarrow> bool" where
  "HasPrefix s pre = (take (length pre) s = pre)"

definition TrimPrefix :: "string \<Rightarrow> string \<Rightarrow> string" where
  "TrimPrefix s pre = (if HasPrefix s pre then drop (length pre) s else s)"

text \<open>
  \<open>strings.TrimSpace\<close> on the white space of ASCII (tab, line feed, vertical tab, form
  feed, carriage return, space), which is what the output of \<open>docker inspect\<close> carries
  around a container name.
\<close>

definition isSpace :: "char \<Rightarrow> bool" where
  "isSpace c = ((of_char c :: nat) \<in> {9, 10, 11, 12, 13, 32})"

definition TrimSpace :: "string \<Rightarrow> string" where
  "TrimSpace s = rev (dropWhile isSpace (rev (dropWhile isSpace s)))"

text \<open>\<open>strings.Index\<close>: the first position of the substring; \<open>None\<close> is Go's \<open>-1\<close>.\<close>

fun strings_Index :: "string \<Rightarrow> string \<Rightarrow> nat option" where
  "strings_Index [] sub = (if sub = [] then Some 0 else None)"
| "strings_Index (c # cs) sub =
     (if HasPrefix (c # cs) sub then Some 0
      else map_option Suc (strings_Index cs sub))"

subsection \<open>Docker exec correlator (\<open>docker_monitor.go\<close>)\<close>

record DockerEventActor =
  Actor_ID :: string
  Attributes :: "string \<rightharpoonup> string"

record DockerEvent =
  Type :: string
  Action :: string
  ID :: string
  Actor :: DockerEventActor
  Time :: int

record ContainerExecInfo =
  ContainerID :: string
  ContainerName :: string
  Command :: string
  StartTime :: Time

text \<open>
  The working set \<open>execMap\<close> is a Go map from exec id to a record. It is kept as an
  association list, so that "one record per id" is a property to prove (the keys are
  distinct) and the size of the working set is the length of the list: assignment is
  \<open>AList.update\<close>, \<open>delete\<close> is \<open>AList.delete\<close>, lookup is \<open>map_of\<close>. The map holds
  pointers, and \<open>handleExecStart\<close> writes through the pointer it looked up: the record in
  the map changes, which is an update at that key.
\<close>

record DockerMonitor =
  execMap :: "(string \<times> ContainerExecInfo) list"

definition NewDockerMonitor :: DockerMonitor where
  "NewDockerMonitor = \<lparr>execMap = []\<rparr>"

datatype panic = SliceBoundsOutOfRange nat nat

text \<open>Indexing a Go \<open>map[string]string\<close>: the empty string for a missing key.\<close>

definition attr :: "DockerEvent \<Rightarrow> string \<Rightarrow> string" where
  "attr event k = (case Attributes (Actor event) k of None \<Rightarrow> [] | Some v \<Rightarrow> v)"

text \<open>
  \<open>inspected\<close> is what \<open>docker inspect --format {{.Name}}\<close> answers for the container of
  the event at the moment of the call: \<open>None\<close> when the command fails. The record is
  stored before the progress line is formatted; that line slices \<open>execID[:12]\<close>, which
  panics for an id shorter than twelve bytes.
\<close>

definition handleExecCreate ::
  "string option \<Rightarrow> DockerMonitor \<Rightarrow> DockerEvent \<Rightarrow> panic + (DockerMonitor \<times> effect list)" where
  "handleExecCreate inspected dm event =
     (let execID = attr event ''execID'';
          containerID = ID event
      in case inspected of
           None \<Rightarrow> Inr (dm, [Log_NameLookupFailed containerID])
         | Some output \<Rightarrow>
             (let containerName = TrimPrefix (TrimSpace output) ''/'';
                  command = (case strings_Index (Action event) '': '' of
                               None \<Rightarrow> ''unknown''
                             | Some colonIndex \<Rightarrow> drop (colonIndex + 2) (Action event));
                  dm' = dm\<lparr>execMap :=
                          AList.update execID
                            \<lparr>ContainerID = containerID, ContainerName = containerName,
                             Command = command, StartTime = zeroTime\<rparr>
                            (execMap dm)\<rparr>
              in if length execID < 12 then Inl (SliceBoundsOutOfRange 12 (length execID))
                 else Inr (dm', [Printf_ExecCreated containerName (take 12 execID)])))"

definition handleExecStart ::
  "Time \<Rightarrow> DockerMonitor \<Rightarrow> DockerEvent \<Rightarrow> DockerMonitor \<times> effect list" where
  "handleExecStart now dm event =
     (let execID = attr event ''execID''
      in case map_of (execMap dm) execID of
           Some info \<Rightarrow>
             (dm\<lparr>execMap := AList.update execID (info\<lparr>StartTime := now\<rparr>) (execMap dm)\<rparr>,
              [Printf_CommandStarted (ContainerName info)])
         | None \<Rightarrow> (dm, []))"

text \<open>\<open>globalConfig\<close> is a package-level \<open>*Config\<close>: \<open>None\<close> is the nil pointer.\<close>

definition handleExecDie ::
  "Config option \<Rightarrow> platform \<Rightarrow> Time \<Rightarrow> DockerMonitor \<Rightarrow> DockerEvent
     \<Rightarrow> DockerMonitor \<times> effect list" where
  "handleExecDie globalConfig p now dm event =
     (let execID = attr event ''execID''
      in case map_of (execMap dm) execID of
           Some info \<Rightarrow>
             (let duration = time_Since now (StartTime info);
                  exitCode = attr event ''exitCode'';
                  success = (exitCode = ''0'');
                  sent = (case globalConfig of
                            None \<Rightarrow> []
                          | Some c \<Rightarrow>
                              if MinDurationTime (General c) \<le> duration
                                 \<and> EnableNotify (General c)
                              then sendContainerNotification p (Command info)
                                     (ContainerName info) duration success
                              else [])
              in (dm\<lparr>execMap := AList.delete execID (execMap dm)\<rparr>,
                  sent @ [Printf_CommandCompleted (ContainerName info)
                            (Duration_Round duration Second) exitCode]))
         | None \<Rightarrow> (dm, []))"

definition handleEvent ::
  "Config option \<Rightarrow> platform \<Rightarrow> Time \<Rightarrow> string option \<Rightarrow> DockerMonitor \<Rightarrow> DockerEvent
     \<Rightarrow> panic + (DockerMonitor \<times> effect list)" where
  "handleEvent globalConfig p now inspected dm event =
     (if HasPrefix (Action event) ''exec_create:'' then handleExecCreate inspected dm event
      else if HasPrefix (Action event) ''exec_start:'' then Inr (handleExecStart now dm event)
      else if Action event = ''exec_die'' then Inr (handleExecDie globalConfig p now dm event)
      else Inr (dm, []))"

text \<open>
  The reading loop of \<open>Start\<close>, over the events that \<open>json.Unmarshal\<close> accepts. An arrival
  is the event together with what the environment answers while it is handled: the
  reading of the clock and the outcome of \<open>docker inspect\<close>. A panic ends the process.
  Every effect is logged with the exec id of the event that caused it.
\<close>

type_synonym arrival = "Time \<times> string option \<times> DockerEvent"

definition execID_of :: "arrival \<Rightarrow> string" where
  "execID_of a = attr (snd (snd a)) ''execID''"

fun run_events ::
  "Config option \<Rightarrow> platform \<Rightarrow> DockerMonitor \<Rightarrow> arrival list
     \<Rightarrow> panic + (DockerMonitor \<times> (string \<times> effect) list)" where
  "run_events globalConfig p dm [] = Inr (dm, [])"
| "run_events globalConfig p dm (a # as) =
     (case handleEvent globalConfig p (fst a) (fst (snd a)) dm (snd (snd a)) of
        Inl e \<Rightarrow> Inl e
      | Inr (dm', out) \<Rightarrow>
          (case run_events globalConfig p dm' as of
             Inl e \<Rightarrow> Inl e
           | Inr (dm'', log) \<Rightarrow> Inr (dm'', map (Pair (execID_of a)) out @ log)))"

text \<open>The kind of fact an event is, as \<open>handleEvent\<close> tells them apart.\<close>

datatype fact = Create | Start | Die | Other

definition fact_of :: "DockerEvent \<Rightarrow> fact" where
  "fact_of event =
     (if HasPrefix (Action event) ''exec_create:'' then Create
      else if HasPrefix (Action event) ''exec_start:'' then Start
      else if Action event = ''exec_die'' then Die
      else Other)"

text \<open>The facts that a stream carries for one exec id, in order of arrival.\<close>

definition facts_for :: "string \<Rightarrow> arrival list \<Rightarrow> fact list" where
  "facts_for i as = map (\<lambda>a. fact_of (snd (snd a))) (filter (\<lambda>a. execID_of a = i) as)"

text \<open>The notifications that a logged run dispatched for one exec id.\<close>

definition dispatched_for :: "string \<Rightarrow> (string \<times> effect) list \<Rightarrow> nat" where
  "dispatched_for i log = dispatched (map snd (filter (\<lambda>x. fst x = i) log))"

text \<open>Events as the Docker daemon sends them for one \<open>docker exec\<close>.\<close>

definition exec_create_event :: "string \<Rightarrow> string \<Rightarrow> string \<Rightarrow> DockerEvent" where
  "exec_create_event execID containerID cmd =
     \<lparr>Type = ''container'', Action = ''exec_create: '' @ cmd, ID = containerID,
      Actor = \<lparr>Actor_ID = containerID, Attributes = [''execID'' \<mapsto> execID]\<rparr>, Time = 0\<rparr>"

definition exec_start_event :: "string \<Rightarrow> string \<Rightarrow> string \<Rightarrow> DockerEvent" where
  "exec_start_event execID containerID cmd =
     \<lparr>Type = ''container'', Action = ''exec_start: '' @ cmd, ID = containerID,
      Actor = \<lparr>Actor_ID = containerID, Attributes = [''execID'' \<mapsto> execID]\<rparr>, Time = 0\<rparr>"

definition exec_die_event :: "string \<Rightarrow> string \<Rightarrow> string \<Rightarrow> DockerEvent" where
  "exec_die_event execID containerID exitCode =
     \<lparr>Type = ''container'', Action = ''exec_die'', ID = containerID,
      Actor = \<lparr>Actor_ID = containerID,
               Attributes = [''execID'' \<mapsto> execID, ''exitCode'' \<mapsto> exitCode]\<rparr>,
      Time = 0\<rparr>"

subsection \<open>HTTP ingress (\<open>http_server.go\<close>)\<close>

record NotificationRequest =
  req_Command :: string
  req_ContainerName :: string
  req_Duration :: string
  req_Success :: bool
  req_StartTime :: string

text \<open>
  The body of a request, as far as \<open>Decode\<close> looks at it: the members of the JSON object
  that the struct tags name, each present or absent.
\<close>

record json_object =
  json_command :: "string option"
  json_container_name :: "string option"
  json_duration :: "string option"
  json_success :: "bool option"
  json_start_time :: "string option"

text \<open>
  \<open>json.Decoder.Decode\<close> into a fresh \<open>NotificationRequest\<close>: a member that is absent
  leaves the zero value of its field (the empty string, \<open>false\<close>).
\<close>

definition Decode :: "json_object \<Rightarrow> NotificationRequest" where
  "Decode j =
     \<lparr>req_Command = (case json_command j of None \<Rightarrow> [] | Some v \<Rightarrow> v),
      req_ContainerName = (case json_container_name j of None \<Rightarrow> [] | Some v \<Rightarrow> v),
      req_Duration = (case json_duration j of None \<Rightarrow> [] | Some v \<Rightarrow> v),
      req_Success = (case json_success j of None \<Rightarrow> False | Some v \<Rightarrow> v),
      req_StartTime = (case json_start_time j of None \<Rightarrow> [] | Some v \<Rightarrow> v)\<rparr>"

text \<open>A request: its method and its body, \<open>None\<close> for a body that \<open>Decode\<close> rejects.\<close>

record http_request =
  http_Method :: string
  http_Body :: "json_object option"

datatype response_body = ErrorText string | JSON "(string \<times> string) list"

record http_response =
  status :: nat
  body :: response_body

definition StatusOK :: nat where "StatusOK = 200"
definition StatusBadRequest :: nat where "StatusBadRequest = 400"
definition StatusMethodNotAllowed :: nat where "StatusMethodNotAllowed = 405"

definition http_Error :: "string \<Rightarrow> nat \<Rightarrow> http_response" where
  "http_Error msg code = \<lparr>status = code, body = ErrorText msg\<rparr>"

text \<open>
  \<open>ParseDuration\<close> is the standard library's \<open>time.ParseDuration\<close>: \<open>None\<close> for its error.
  The response is what the handler hands to the \<open>ResponseWriter\<close>; a handler that writes
  a body without setting a status answers 200.
\<close>

definition handleNotification ::
  "platform \<Rightarrow> (string \<Rightarrow> Duration option) \<Rightarrow> http_request \<Rightarrow> http_response \<times> effect list" where
  "handleNotification p ParseDuration r =
     (if http_Method r \<noteq> ''POST'' then (http_Error ''Method not allowed'' StatusMethodNotAllowed, [])
      else case http_Body r of
        None \<Rightarrow> (http_Error ''Invalid JSON payload'' StatusBadRequest, [Log_InvalidJSON])
      | Some j \<Rightarrow>
         (let req = Decode j in
          if req_Command req = [] then
            (http_Error ''Missing required field: command'' StatusBadRequest, [])
          else if req_Duration req = [] then
            (http_Error ''Missing required field: duration'' StatusBadRequest, [])
          else case ParseDuration (req_Duration req) of
            None \<Rightarrow>
              (http_Error ''Invalid duration format'' StatusBadRequest,
               [Log_InvalidDuration (req_Duration req)])
          | Some duration \<Rightarrow>
              (let containerName =
                     (if req_ContainerName req = [] then ''unknown_container''
                      else req_ContainerName req)
               in (\<lparr>status = StatusOK,
                    body = JSON [(''status'', ''success''), (''message'', ''Notification sent'')]\<rparr>,
                   Log_Received (req_Command req) containerName duration (req_Success req) #
                   sendContainerNotification p (req_Command req) containerName duration
                     (req_Success req)))))"

subsection \<open>Direct execution (\<open>main.go\<close>)\<close>

text \<open>
  What \<open>cmd.Run()\<close> returns: \<open>None\<close> is the nil error (the child ran and left with status
  0); \<open>ExitError n\<close> is a child that left with the status \<open>n\<close>, which is not 0;
  \<open>OtherError\<close> is a child that could not be started or waited for.
\<close>

datatype run_error = ExitError int | OtherError string

text \<open>
  \<open>startTime\<close> and \<open>endTime\<close> are the two readings of the clock, before and after the
  child. Returning from \<open>main\<close> ends the process with status 0.
\<close>

definition executeCommand ::
  "platform \<Rightarrow> string \<Rightarrow> string list \<Rightarrow> Time \<Rightarrow> Time \<Rightarrow> run_error option \<Rightarrow> effect list" where
  "executeCommand p command args startTime endTime err =
     (let duration = time_Since endTime startTime
      in Printf_Executing command args #
         (if MIN_DURATION \<le> duration then sendNotification p command duration (err = None)
          else []) @
         (if err \<noteq> None then [Exit 1] else [Exit 0]))"

subsection \<open>The policy gate of the specification\<close>

text \<open>
  The specification's \<open>ShouldNotify(duration, config)\<close>, in its own words: the duration
  is at least the configured minimum and notifications are enabled. The source has no
  such function; each path writes its own test.
\<close>

definition spec_ShouldNotify :: "Duration \<Rightarrow> Config \<Rightarrow> bool" where
  "spec_ShouldNotify d c = (MinDurationTime (General c) \<le> d \<and> EnableNotify (General c))"

text \<open>What the console lines of the notifications in a run say: the status words.\<close>

fun bell_status :: "effect \<Rightarrow> string list" where
  "bell_status (Printf_Bell t (CommandMessage c st d)) = [st]"
| "bell_status (Printf_Bell t (ContainerMessage c n st d)) = [st]"
| "bell_status e = []"

definition statuses :: "effect list \<Rightarrow> string list" where
  "statuses out = concat (map bell_status out)"

subsection \<open>Sample inputs\<close>

text \<open>
  Two \<open>docker exec\<close> calls in two containers, interleaved: both are created, both start,
  then the first ends after twenty seconds with status 0 and the second after
  twenty-five with status 1.
\<close>

definition two_execs :: "arrival list" where
  "two_execs =
     [(100, Some ''/devbox'', exec_create_event ''0123456789abcdef'' ''c1'' ''sleep 20''),
      (110, Some ''/builder'', exec_create_event ''fedcba9876543210'' ''c2'' ''make''),
      (120, None, exec_start_event ''0123456789abcdef'' ''c1'' ''sleep 20''),
      (130, None, exec_start_event ''fedcba9876543210'' ''c2'' ''make''),
      (120 + 20 * Second, None, exec_die_event ''0123456789abcdef'' ''c1'' ''0''),
      (130 + 25 * Second, None, exec_die_event ''fedcba9876543210'' ''c2'' ''1'')]"

text \<open>A monitor that holds one record, created and started at instant 120.\<close>

definition one_running :: DockerMonitor where
  "one_running =
     \<lparr>execMap = [(''0123456789abcdef'',
                  \<lparr>ContainerID = ''c1'', ContainerName = ''devbox'',
                   Command = ''sleep 20'', StartTime = 120\<rparr>)]\<rparr>"

text \<open>A monitor that holds one record that was created and never started.\<close>

definition one_created :: DockerMonitor where
  "one_created =
     \<lparr>execMap = [(''0123456789abcdef'',
                  \<lparr>ContainerID = ''c1'', ContainerName = ''devbox'',
                   Command = ''sleep 20'', StartTime = zeroTime\<rparr>)]\<rparr>"

text \<open>The default configuration with notifications switched off.\<close>

definition quiet_config :: Config where
  "quiet_config = getDefaultConfig\<lparr>General := (General getDefaultConfig)\<lparr>EnableNotify := False\<rparr>\<rparr>"

text \<open>
  The request of the specification's example, \<open>POST /notify\<close> for \<open>sleep 20\<close> in
  \<open>devbox\<close>, with the given \<open>duration\<close> and \<open>success\<close> members (\<open>None\<close>: left out).
\<close>

definition notify_request :: "string option \<Rightarrow> bool option \<Rightarrow> http_request" where
  "notify_request duration success =
     \<lparr>http_Method = ''POST'',
      http_Body = Some \<lparr>json_command = Some ''sleep 20'', json_container_name = Some ''devbox'',
                        json_duration = duration, json_success = success,
                        json_start_time = None\<rparr>\<rparr>"

section \<open>Properties\<close>

subsection \<open>The notifier\<close>

lemma is_exec_only:
  assumes "list_all is_exec xs"
  shows "filter is_exec xs = xs" and "filter is_bell xs = []" and "filter is_exit xs = []"
    and "concat (map bell_status xs) = []"
proof -
  have each: "is_exec x \<Longrightarrow> \<not> is_bell x \<and> \<not> is_exit x \<and> bell_status x = []" for x
    by (cases x) simp_all
  from assms show "filter is_exec xs = xs"
    by (induction xs) simp_all
  from assms each show "filter is_bell xs = []"
    by (induction xs) simp_all
  from assms each show "filter is_exit xs = []"
    by (induction xs) simp_all
  from assms each show "concat (map bell_status xs) = []"
    by (induction xs) simp_all
qed

lemma try_tool_runs: "list_all is_exec (fst (try_tool p name args))"
  by (simp add: try_tool_def)

lemma sendLinuxNotification_runs:
  "list_all is_exec (fst (sendLinuxNotification p title msg icon))"
  by (simp add: sendLinuxNotification_def Let_def try_tool_runs)



lemma sendNativeNotification_runs:
  "list_all is_exec (fst (sendNativeNotification p title msg icon))"
  by (simp add: sendNativeNotification_def sendMacOSNotification_def
      sendWindowsNotification_def sendLinuxNotification_runs Let_def)




lemma dispatched_Nil [simp]: "dispatched [] = 0"
  by (simp add: dispatched_def)

lemma dispatched_append [simp]: "dispatched (xs @ ys) = dispatched xs + dispatched ys"
  by (simp add: dispatched_def)

lemma dispatched_Cons [simp]: "dispatched (x # xs) = (if is_bell x then 1 else 0) + dispatched xs"
  by (simp add: dispatched_def)

lemma dispatched_native [simp]:
  "dispatched (fst (sendNativeNotification p title msg icon)) = 0"
  by (simp add: dispatched_def is_exec_only(2) [OF sendNativeNotification_runs])

lemma dispatched_sendNotification [simp]: "dispatched (sendNotification p command d ok) = 1"
  by (simp add: sendNotification_def Let_def split: option.split)

lemma dispatched_sendContainerNotification [simp]:
  "dispatched (sendContainerNotification p command name d ok) = 1"
  by (simp add: sendContainerNotification_def Let_def split: option.split)



lemma no_exit_sendNotification: "filter is_exit (sendNotification p command d ok) = []"
  by (simp add: sendNotification_def Let_def is_exec_only(3) [OF sendNativeNotification_runs]
      split: option.split)



lemma last_executeCommand:
  "last (executeCommand p command args t0 t1 err) = Exit (if err = None then 0 else 1)"
  by (simp add: executeCommand_def Let_def)

subsection \<open>The correlator, one event\<close>

lemma map_of_None_iff: "(map_of al k = None) = (k \<notin> fst ` set al)"
  by (simp add: map_of_eq_None_iff)



lemma handleExecDie_unknown:
  "map_of (execMap dm) (attr ev ''execID'') = None \<Longrightarrow> handleExecDie cfg p now dm ev = (dm, [])"
  by (simp add: handleExecDie_def)

lemma handleExecStart_unknown:
  "map_of (execMap dm) (attr ev ''execID'') = None \<Longrightarrow> handleExecStart now dm ev = (dm, [])"
  by (simp add: handleExecStart_def)

lemma handleExecDie_known:
  assumes "map_of (execMap dm) (attr ev ''execID'') = Some info"
  shows "handleExecDie cfg p now dm ev =
     (dm\<lparr>execMap := AList.delete (attr ev ''execID'') (execMap dm)\<rparr>,
      (case cfg of
         None \<Rightarrow> []
       | Some c \<Rightarrow>
           if MinDurationTime (General c) \<le> time_Since now (StartTime info)
              \<and> EnableNotify (General c)
           then sendContainerNotification p (Command info) (ContainerName info)
                  (time_Since now (StartTime info)) (attr ev ''exitCode'' = ''0'')
           else [])
      @ [Printf_CommandCompleted (ContainerName info)
           (Duration_Round (time_Since now (StartTime info)) Second) (attr ev ''exitCode'')])"
  using assms by (simp add: handleExecDie_def Let_def)


lemma handleExecDie_dispatched:
  "dispatched (snd (handleExecDie cfg p now dm ev)) =
     (case map_of (execMap dm) (attr ev ''execID'') of
        None \<Rightarrow> 0
      | Some info \<Rightarrow>
          (case cfg of
             None \<Rightarrow> 0
           | Some c \<Rightarrow>
               if MinDurationTime (General c) \<le> time_Since now (StartTime info)
                  \<and> EnableNotify (General c) then 1 else 0))"
  by (simp add: handleExecDie_def Let_def split: option.split)

lemma fact_of_handleEvent:
  "handleEvent cfg p now inspected dm ev =
     (case fact_of ev of
        Create \<Rightarrow> handleExecCreate inspected dm ev
      | Start \<Rightarrow> Inr (handleExecStart now dm ev)
      | Die \<Rightarrow> Inr (handleExecDie cfg p now dm ev)
      | Other \<Rightarrow> Inr (dm, []))"
  by (simp add: handleEvent_def fact_of_def)






subsection \<open>The correlator, a stream of events\<close>


lemma facts_for_Nil [simp]: "facts_for i [] = []"
  by (simp add: facts_for_def)



lemma dispatched_for_Nil [simp]: "dispatched_for i [] = 0"
  by (simp add: dispatched_for_def)











subsection \<open>Evaluating the sample inputs\<close>

lemmas sample_defs = two_execs_def one_running_def one_created_def facts_for_def execID_of_def attr_def
  exec_create_event_def exec_start_event_def exec_die_event_def fact_of_def HasPrefix_def

subsection \<open>The working set\<close>




lemmas time_defs = time_Since_def time_Sub_def Second_def maxDuration_def minDuration_def zeroTime_def

lemmas config_defs = getDefaultConfig_def quiet_config_def spec_ShouldNotify_def MIN_DURATION_def

subsection \<open>Facts for an unknown exec id\<close>

text \<open>
  C5. When the working set holds no record for an exec id, a start fact and a die fact
  for that id leave the monitor as it is and produce no effect at all: no record, no
  console line, no notification. So a start fact followed by a die fact for an id that was
  never created runs to the end with the same monitor and an empty log.
\<close>

theorem C5_unknown_id_is_a_silent_no_op:
  assumes "map_of (execMap dm) i = None" and "attr s ''execID'' = i" and "attr d ''execID'' = i"
  shows "handleExecStart now dm s = (dm, [])
       \<and> handleExecDie cfg p now' dm d = (dm, [])
       \<and> (fact_of s = Start \<and> fact_of d = Die
            \<longrightarrow> run_events cfg p dm [(now, inspected, s), (now', inspected', d)] = Inr (dm, []))"
proof (intro conjI impI)
  from assms have us: "map_of (execMap dm) (attr s ''execID'') = None"
    and ud: "map_of (execMap dm) (attr d ''execID'') = None"
    by simp_all
  show start: "handleExecStart now dm s = (dm, [])"
    by (rule handleExecStart_unknown [OF us])
  show die: "handleExecDie cfg p now' dm d = (dm, [])"
    by (rule handleExecDie_unknown [OF ud])
  assume "fact_of s = Start \<and> fact_of d = Die"
  with start die show "run_events cfg p dm [(now, inspected, s), (now', inspected', d)] = Inr (dm, [])"
    by (simp add: fact_of_handleEvent)
qed

theorem C5_witness:
  "handleExecStart 5 NewDockerMonitor (exec_start_event ''0123456789abcdef'' ''c1'' ''sleep 20'')
     = (NewDockerMonitor, [])
   \<and> handleExecDie (Some getDefaultConfig) headless_linux (5 + 20 * Second) NewDockerMonitor
       (exec_die_event ''0123456789abcdef'' ''c1'' ''0'') = (NewDockerMonitor, [])
   \<and> run_events (Some getDefaultConfig) headless_linux NewDockerMonitor
       [(5, None, exec_start_event ''0123456789abcdef'' ''c1'' ''sleep 20''),
        (5 + 20 * Second, None, exec_die_event ''0123456789abcdef'' ''c1'' ''0'')]
     = Inr (NewDockerMonitor, [])"
proof -
  have h: "map_of (execMap NewDockerMonitor) ''0123456789abcdef'' = None"
    by (simp add: NewDockerMonitor_def)
  have s: "attr (exec_start_event ''0123456789abcdef'' ''c1'' ''sleep 20'') ''execID'' = ''0123456789abcdef''"
    by (simp add: sample_defs)
  have d: "attr (exec_die_event ''0123456789abcdef'' ''c1'' ''0'') ''execID'' = ''0123456789abcdef''"
    by (simp add: sample_defs)
  have k: "fact_of (exec_start_event ''0123456789abcdef'' ''c1'' ''sleep 20'') = Start
     \<and> fact_of (exec_die_event ''0123456789abcdef'' ''c1'' ''0'') = Die"
    by (simp add: sample_defs)
  from C5_unknown_id_is_a_silent_no_op [OF h s d, of 5 "Some getDefaultConfig" headless_linux
      "5 + 20 * Second" None None] k
  show ?thesis
    by blast
qed

subsection \<open>The gate of the die fact\<close>

text \<open>
  C6. The specification makes the notification of a die fact depend on the duration and
  on the enabled flag alone. The handler first asks whether a configuration is loaded:
  with \<open>globalConfig\<close> nil, a die fact for a known id after twenty seconds dispatches
  nothing, although the gate of the default configuration is open at twenty seconds.
\<close>

theorem C6_counterexample:
  "map_of (execMap one_running) (attr (exec_die_event ''0123456789abcdef'' ''c1'' ''0'') ''execID'')
     = Some \<lparr>ContainerID = ''c1'', ContainerName = ''devbox'', Command = ''sleep 20'',
             StartTime = 120\<rparr>
   \<and> dispatched (snd (handleExecDie None headless_linux (120 + 20 * Second) one_running
         (exec_die_event ''0123456789abcdef'' ''c1'' ''0''))) = 0
   \<and> spec_ShouldNotify (time_Since (120 + 20 * Second) 120) getDefaultConfig"
proof (intro conjI)
  show "map_of (execMap one_running) (attr (exec_die_event ''0123456789abcdef'' ''c1'' ''0'') ''execID'')
     = Some \<lparr>ContainerID = ''c1'', ContainerName = ''devbox'', Command = ''sleep 20'',
             StartTime = 120\<rparr>"
    by (simp add: sample_defs)
  show "dispatched (snd (handleExecDie None headless_linux (120 + 20 * Second) one_running
         (exec_die_event ''0123456789abcdef'' ''c1'' ''0''))) = 0"
    by (simp add: handleExecDie_dispatched split: option.split)
  show "spec_ShouldNotify (time_Since (120 + 20 * Second) 120) getDefaultConfig"
    by (simp add: time_defs config_defs)
qed

text \<open>
  C6, as the source has it. For a die fact with a record, under every state of
  \<open>globalConfig\<close>: the handler dispatches one notification when a configuration is
  loaded, the measured duration is at least its minimum and its notifications are
  enabled, and none otherwise; with a configuration loaded, a duration equal to the
  minimum notifies.
\<close>

theorem C6_die_notifies_iff_loaded_and_gate_passes:
  assumes "map_of (execMap dm) (attr ev ''execID'') = Some info"
  shows "dispatched (snd (handleExecDie cfg p now dm ev)) =
           (case cfg of
              None \<Rightarrow> 0
            | Some c \<Rightarrow>
                if MinDurationTime (General c) \<le> time_Since now (StartTime info)
                   \<and> EnableNotify (General c) then 1 else 0)
       \<and> (\<forall>c. cfg = Some c
              \<and> time_Since now (StartTime info) = MinDurationTime (General c)
              \<and> EnableNotify (General c)
            \<longrightarrow> dispatched (snd (handleExecDie cfg p now dm ev)) = 1)"
  using assms by (simp add: handleExecDie_dispatched)

theorem C6_witness:
  "dispatched (snd (handleExecDie (Some getDefaultConfig) headless_linux (120 + 15 * Second)
      one_running (exec_die_event ''0123456789abcdef'' ''c1'' ''0''))) = 1
   \<and> time_Since (120 + 15 * Second) 120 = MinDurationTime (General getDefaultConfig)
   \<and> EnableNotify (General getDefaultConfig)"
proof -
  have h: "map_of (execMap one_running) (attr (exec_die_event ''0123456789abcdef'' ''c1'' ''0'') ''execID'')
      = Some \<lparr>ContainerID = ''c1'', ContainerName = ''devbox'', Command = ''sleep 20'', StartTime = 120\<rparr>"
    by (simp add: sample_defs)
  have k: "time_Since (120 + 15 * Second) 120 = MinDurationTime (General getDefaultConfig)
      \<and> EnableNotify (General getDefaultConfig)"
    by (simp add: time_defs config_defs)
  from C6_die_notifies_iff_loaded_and_gate_passes
    [OF h, of "Some getDefaultConfig" headless_linux "120 + 15 * Second"] k
  show ?thesis
    by simp
qed

lemma time_Since_zeroTime: "0 \<le> now \<Longrightarrow> time_Since now zeroTime = min now maxDuration"
  by (simp add: time_defs)

subsection \<open>A die fact without a start fact\<close>

text \<open>
  C9. A record whose start time is still the zero value, met by a die fact at an instant
  of the present era (more than \<open>maxDuration\<close> nanoseconds after the zero time, so any
  date after the year 293): the handler does not panic, the measured duration is the
  largest duration there is (about 292 years), the record is removed and the progress
  line is printed last, as for any other die fact.
\<close>

theorem C9_die_without_start_completes:
  assumes "map_of (execMap dm) (attr ev ''execID'') = Some info"
    and "StartTime info = zeroTime" and "fact_of ev = Die" and "maxDuration \<le> now"
  shows "\<exists>sent. handleEvent cfg p now inspected dm ev =
           Inr (dm\<lparr>execMap := AList.delete (attr ev ''execID'') (execMap dm)\<rparr>,
                sent @ [Printf_CommandCompleted (ContainerName info)
                          (Duration_Round maxDuration Second) (attr ev ''exitCode'')])
       \<and> time_Since now (StartTime info) = maxDuration"
proof -
  from assms(4) have "0 \<le> now"
    by (simp add: maxDuration_def)
  with assms(2,4) have big: "time_Since now (StartTime info) = maxDuration"
    by (simp add: time_Since_zeroTime)
  from assms(3) have "handleEvent cfg p now inspected dm ev = Inr (handleExecDie cfg p now dm ev)"
    by (simp add: fact_of_handleEvent)
  with handleExecDie_known [OF assms(1), of cfg p now] big show ?thesis
    by simp
qed

theorem C9_witness:
  "(\<exists>sent. handleEvent (Some getDefaultConfig) headless_linux (2026 * 365 * 86400 * Second) None
        one_created (exec_die_event ''0123456789abcdef'' ''c1'' ''0'') =
      Inr (one_created\<lparr>execMap := AList.delete
              (attr (exec_die_event ''0123456789abcdef'' ''c1'' ''0'') ''execID'') (execMap one_created)\<rparr>,
           sent @ [Printf_CommandCompleted ''devbox'' (Duration_Round maxDuration Second)
                     (attr (exec_die_event ''0123456789abcdef'' ''c1'' ''0'') ''exitCode'')]))
   \<and> maxDuration \<le> 2026 * 365 * 86400 * Second"
proof -
  have h: "map_of (execMap one_created) (attr (exec_die_event ''0123456789abcdef'' ''c1'' ''0'') ''execID'')
      = Some \<lparr>ContainerID = ''c1'', ContainerName = ''devbox'', Command = ''sleep 20'', StartTime = zeroTime\<rparr>"
    by (simp add: sample_defs)
  have z: "StartTime \<lparr>ContainerID = ''c1'', ContainerName = ''devbox'', Command = ''sleep 20'',
      StartTime = zeroTime\<rparr> = zeroTime"
    by simp
  have k: "fact_of (exec_die_event ''0123456789abcdef'' ''c1'' ''0'') = Die"
    by (simp add: sample_defs)
  have n: "maxDuration \<le> 2026 * 365 * 86400 * Second"
    by (simp add: time_defs)
  from C9_die_without_start_completes [OF h z k n, of "Some getDefaultConfig" headless_linux None] n
  show ?thesis
    by simp
qed

subsection \<open>A create fact whose container name cannot be resolved\<close>

text \<open>
  C3. The specification asks for a record under a placeholder name when \<open>docker inspect\<close> fails.
  The source logs the failure and returns: for the sample create fact the monitor is
  unchanged and holds no record for the exec id.
\<close>

theorem C3_counterexample:
  "handleEvent (Some getDefaultConfig) headless_linux 100 None NewDockerMonitor
      (exec_create_event ''0123456789abcdef'' ''c1'' ''sleep 20'')
     = Inr (NewDockerMonitor, [Log_NameLookupFailed ''c1''])
   \<and> map_of (execMap NewDockerMonitor) ''0123456789abcdef'' = None"
  by (simp add: handleEvent_def handleExecCreate_def sample_defs NewDockerMonitor_def)

text \<open>
  C3, as the source has it. When the lookup fails, \<open>handleExecCreate\<close> logs the failure,
  leaves the working set unchanged and returns normally; the loop goes on with the facts
  that follow, exactly as it would have without the create fact.
\<close>

theorem C3_failed_lookup_drops_the_create_fact:
  "handleExecCreate None dm ev = Inr (dm, [Log_NameLookupFailed (ID ev)])
   \<and> (fact_of ev = Create \<longrightarrow>
        run_events cfg p dm ((now, None, ev) # as) =
          (case run_events cfg p dm as of
             Inl e \<Rightarrow> Inl e
           | Inr (dm', log) \<Rightarrow>
               Inr (dm', (attr ev ''execID'', Log_NameLookupFailed (ID ev)) # log)))"
  by (simp add: handleExecCreate_def fact_of_handleEvent execID_of_def split: sum.split)

theorem C3_witness:
  "fact_of (exec_create_event ''0123456789abcdef'' ''c1'' ''sleep 20'') = Create
   \<and> run_events (Some getDefaultConfig) headless_linux NewDockerMonitor
        [(100, None, exec_create_event ''0123456789abcdef'' ''c1'' ''sleep 20''),
         (120, None, exec_start_event ''0123456789abcdef'' ''c1'' ''sleep 20''),
         (120 + 20 * Second, None, exec_die_event ''0123456789abcdef'' ''c1'' ''0'')]
      = Inr (NewDockerMonitor, [(''0123456789abcdef'', Log_NameLookupFailed ''c1'')])"
proof -
  have k: "fact_of (exec_create_event ''0123456789abcdef'' ''c1'' ''sleep 20'') = Create"
    by (simp add: sample_defs)
  have i: "attr (exec_create_event ''0123456789abcdef'' ''c1'' ''sleep 20'') ''execID'' = ''0123456789abcdef''"
    "ID (exec_create_event ''0123456789abcdef'' ''c1'' ''sleep 20'') = ''c1''"
    by (simp_all add: sample_defs)
  have r: "run_events (Some getDefaultConfig) headless_linux NewDockerMonitor
        [(120, None, exec_start_event ''0123456789abcdef'' ''c1'' ''sleep 20''),
         (120 + 20 * Second, None, exec_die_event ''0123456789abcdef'' ''c1'' ''0'')]
      = Inr (NewDockerMonitor, [])"
    by (simp add: handleEvent_def handleExecStart_def handleExecDie_def sample_defs NewDockerMonitor_def)
  have step: "run_events (Some getDefaultConfig) headless_linux NewDockerMonitor
        ((100, None, exec_create_event ''0123456789abcdef'' ''c1'' ''sleep 20'') #
         [(120, None, exec_start_event ''0123456789abcdef'' ''c1'' ''sleep 20''),
          (120 + 20 * Second, None, exec_die_event ''0123456789abcdef'' ''c1'' ''0'')])
      = (case run_events (Some getDefaultConfig) headless_linux NewDockerMonitor
               [(120, None, exec_start_event ''0123456789abcdef'' ''c1'' ''sleep 20''),
                (120 + 20 * Second, None, exec_die_event ''0123456789abcdef'' ''c1'' ''0'')] of
           Inl e \<Rightarrow> Inl e
         | Inr (dm', log) \<Rightarrow>
             Inr (dm', (attr (exec_create_event ''0123456789abcdef'' ''c1'' ''sleep 20'') ''execID'',
                        Log_NameLookupFailed (ID (exec_create_event ''0123456789abcdef'' ''c1'' ''sleep 20''))) # log))"
    using C3_failed_lookup_drops_the_create_fact [of NewDockerMonitor
      "exec_create_event ''0123456789abcdef'' ''c1'' ''sleep 20''" "Some getDefaultConfig"
      headless_linux 100
      "[(120, None, exec_start_event ''0123456789abcdef'' ''c1'' ''sleep 20''),
        (120 + 20 * Second, None, exec_die_event ''0123456789abcdef'' ''c1'' ''0'')]"] k
    by blast
  show ?thesis
    unfolding step r using k by (simp add: i)
qed

subsection \<open>The HTTP ingress\<close>

lemma statuses_Nil [simp]: "statuses [] = []"
  by (simp add: statuses_def)

lemma statuses_Cons [simp]: "statuses (x # xs) = bell_status x @ statuses xs"
  by (simp add: statuses_def)

lemma statuses_append [simp]: "statuses (xs @ ys) = statuses xs @ statuses ys"
  by (simp add: statuses_def)

lemma statuses_native [simp]:
  "statuses (fst (sendNativeNotification p title msg icon)) = []"
  by (simp add: statuses_def is_exec_only(4) [OF sendNativeNotification_runs])

lemma statuses_sendNotification [simp]:
  "statuses (sendNotification p command d ok) = [if ok then ''completed'' else ''failed'']"
  by (simp add: sendNotification_def Let_def split: option.split)

lemma statuses_sendContainerNotification [simp]:
  "statuses (sendContainerNotification p command name d ok) = [if ok then ''completed'' else ''failed'']"
  by (simp add: sendContainerNotification_def Let_def split: option.split)

lemma handleNotification_accepted:
  assumes "http_Method r = ''POST''" and "http_Body r = Some j"
    and "json_command j = Some cmd" and "cmd \<noteq> []"
    and "json_duration j = Some ds" and "ds \<noteq> []" and "pd ds = Some d"
  shows "handleNotification p pd r =
     (\<lparr>status = 200, body = JSON [(''status'', ''success''), (''message'', ''Notification sent'')]\<rparr>,
      Log_Received cmd
        (case json_container_name j of None \<Rightarrow> ''unknown_container''
         | Some n \<Rightarrow> if n = [] then ''unknown_container'' else n)
        d (json_success j = Some True) #
      sendContainerNotification p cmd
        (case json_container_name j of None \<Rightarrow> ''unknown_container''
         | Some n \<Rightarrow> if n = [] then ''unknown_container'' else n)
        d (json_success j = Some True))"
proof -
  have "req_Success (Decode j) = (json_success j = Some True)"
    by (simp add: Decode_def split: option.split)
  with assms show ?thesis
    by (simp add: handleNotification_def Decode_def StatusOK_def Let_def split: option.split)
qed

lemma handleNotification_not_POST:
  "http_Method r \<noteq> ''POST'' \<Longrightarrow>
     handleNotification p pd r = (\<lparr>status = 405, body = ErrorText ''Method not allowed''\<rparr>, [])"
  by (simp add: handleNotification_def http_Error_def StatusMethodNotAllowed_def)

lemma handleNotification_rejected:
  assumes "http_Method r = ''POST''"
    and "http_Body r = None
       \<or> (\<exists>j. http_Body r = Some j
             \<and> (json_command j = None \<or> json_command j = Some []
                 \<or> json_duration j = None \<or> json_duration j = Some []
                 \<or> (\<exists>ds. json_duration j = Some ds \<and> pd ds = None)))"
  shows "status (fst (handleNotification p pd r)) = 400
       \<and> dispatched (snd (handleNotification p pd r)) = 0"
  using assms
  by (auto simp: handleNotification_def http_Error_def StatusBadRequest_def Decode_def Let_def
      split: option.split)

text \<open>
  C7. \<open>POST /notify\<close>: a request with another method is answered 405; a body that
  does not decode, that has no (or an empty) \<open>command\<close> or \<open>duration\<close>, or whose
  \<open>duration\<close> does not parse, is answered 400; in both cases nothing is dispatched. A
  request with a non-empty \<open>command\<close> and a \<open>duration\<close> that parses is answered 200 with
  the body \<open>{status: success, message: Notification sent}\<close>, and exactly one notification
  is dispatched.
\<close>

theorem C7_notify_endpoint_responses:
  "(http_Method r \<noteq> ''POST'' \<longrightarrow>
      status (fst (handleNotification p pd r)) = 405
      \<and> dispatched (snd (handleNotification p pd r)) = 0)
   \<and> (http_Method r = ''POST''
        \<and> (http_Body r = None
           \<or> (\<exists>j. http_Body r = Some j
                 \<and> (json_command j = None \<or> json_command j = Some []
                     \<or> json_duration j = None \<or> json_duration j = Some []
                     \<or> (\<exists>ds. json_duration j = Some ds \<and> pd ds = None)))) \<longrightarrow>
      status (fst (handleNotification p pd r)) = 400
      \<and> dispatched (snd (handleNotification p pd r)) = 0)
   \<and> (http_Method r = ''POST'' \<and> http_Body r = Some j
        \<and> json_command j = Some cmd \<and> cmd \<noteq> []
        \<and> json_duration j = Some ds \<and> ds \<noteq> [] \<and> pd ds = Some d \<longrightarrow>
      fst (handleNotification p pd r) =
        \<lparr>status = 200,
         body = JSON [(''status'', ''success''), (''message'', ''Notification sent'')]\<rparr>
      \<and> dispatched (snd (handleNotification p pd r)) = 1)"
proof (intro conjI impI)
  assume "http_Method r \<noteq> ''POST''"
  then have no: "handleNotification p pd r = (\<lparr>status = 405, body = ErrorText ''Method not allowed''\<rparr>, [])"
    by (rule handleNotification_not_POST)
  show "status (fst (handleNotification p pd r)) = 405"
    by (simp add: no)
  show "dispatched (snd (handleNotification p pd r)) = 0"
    by (simp add: no)
next
  assume bad: "http_Method r = ''POST''
        \<and> (http_Body r = None
           \<or> (\<exists>j. http_Body r = Some j
                 \<and> (json_command j = None \<or> json_command j = Some []
                     \<or> json_duration j = None \<or> json_duration j = Some []
                     \<or> (\<exists>ds. json_duration j = Some ds \<and> pd ds = None))))"
  then have "status (fst (handleNotification p pd r)) = 400
       \<and> dispatched (snd (handleNotification p pd r)) = 0"
    using handleNotification_rejected [of r pd p] by blast
  then show "status (fst (handleNotification p pd r)) = 400"
    and "dispatched (snd (handleNotification p pd r)) = 0"
    by simp_all
next
  assume ok: "http_Method r = ''POST'' \<and> http_Body r = Some j
        \<and> json_command j = Some cmd \<and> cmd \<noteq> []
        \<and> json_duration j = Some ds \<and> ds \<noteq> [] \<and> pd ds = Some d"
  then have parts: "http_Method r = ''POST''" "http_Body r = Some j"
    "json_command j = Some cmd" "cmd \<noteq> []"
    "json_duration j = Some ds" "ds \<noteq> []" "pd ds = Some d"
    by blast+
  have yes: "handleNotification p pd r =
     (\<lparr>status = 200, body = JSON [(''status'', ''success''), (''message'', ''Notification sent'')]\<rparr>,
      Log_Received cmd
        (case json_container_name j of None \<Rightarrow> ''unknown_container''
         | Some n \<Rightarrow> if n = [] then ''unknown_container'' else n)
        d (json_success j = Some True) #
      sendContainerNotification p cmd
        (case json_container_name j of None \<Rightarrow> ''unknown_container''
         | Some n \<Rightarrow> if n = [] then ''unknown_container'' else n)
        d (json_success j = Some True))"
    by (rule handleNotification_accepted [where pd = pd and ds = ds, OF parts])
  show "fst (handleNotification p pd r) =
        \<lparr>status = 200,
         body = JSON [(''status'', ''success''), (''message'', ''Notification sent'')]\<rparr>"
    by (simp add: yes)
  show "dispatched (snd (handleNotification p pd r)) = 1"
    by (simp add: yes)
qed


lemmas request_defs = notify_request_def handleNotification_def Decode_def http_Error_def
  StatusOK_def StatusBadRequest_def StatusMethodNotAllowed_def parse_whole_seconds_def
  sendContainerNotification_def headless_linux_def sendNativeNotification_def
  sendLinuxNotification_def Let_def

theorem C7_witness:
  "status (fst (handleNotification headless_linux parse_whole_seconds
       ((notify_request (Some ''20s'') (Some True))\<lparr>http_Method := ''GET''\<rparr>))) = 405
   \<and> dispatched (snd (handleNotification headless_linux parse_whole_seconds
       ((notify_request (Some ''20s'') (Some True))\<lparr>http_Method := ''GET''\<rparr>))) = 0
   \<and> status (fst (handleNotification headless_linux parse_whole_seconds
       (notify_request None (Some True)))) = 400
   \<and> dispatched (snd (handleNotification headless_linux parse_whole_seconds
       (notify_request None (Some True)))) = 0
   \<and> fst (handleNotification headless_linux parse_whole_seconds
       (notify_request (Some ''20s'') (Some True))) =
        \<lparr>status = 200,
         body = JSON [(''status'', ''success''), (''message'', ''Notification sent'')]\<rparr>
   \<and> dispatched (snd (handleNotification headless_linux parse_whole_seconds
       (notify_request (Some ''20s'') (Some True)))) = 1"
proof -
  let ?j = "\<lambda>d. \<lparr>json_command = Some ''sleep 20'', json_container_name = Some ''devbox'',
      json_duration = d, json_success = Some True, json_start_time = None\<rparr>"
  have get: "http_Method ((notify_request (Some ''20s'') (Some True))\<lparr>http_Method := ''GET''\<rparr>) \<noteq> ''POST''"
    by simp
  have bad: "http_Method (notify_request None (Some True)) = ''POST''
      \<and> (http_Body (notify_request None (Some True)) = None
          \<or> (\<exists>j. http_Body (notify_request None (Some True)) = Some j
                \<and> (json_command j = None \<or> json_command j = Some []
                    \<or> json_duration j = None \<or> json_duration j = Some []
                    \<or> (\<exists>ds. json_duration j = Some ds \<and> parse_whole_seconds ds = None))))"
    by (simp add: notify_request_def)
  have ok: "http_Method (notify_request (Some ''20s'') (Some True)) = ''POST''
      \<and> http_Body (notify_request (Some ''20s'') (Some True)) = Some (?j (Some ''20s''))
      \<and> json_command (?j (Some ''20s'')) = Some ''sleep 20'' \<and> ''sleep 20'' \<noteq> []
      \<and> json_duration (?j (Some ''20s'')) = Some ''20s'' \<and> ''20s'' \<noteq> []
      \<and> parse_whole_seconds ''20s'' = Some (20 * Second)"
    by (simp add: notify_request_def parse_whole_seconds_def Second_def maxDuration_def)
  from C7_notify_endpoint_responses [of
      "(notify_request (Some ''20s'') (Some True))\<lparr>http_Method := ''GET''\<rparr>"
      headless_linux parse_whole_seconds] get
  have one: "status (fst (handleNotification headless_linux parse_whole_seconds
       ((notify_request (Some ''20s'') (Some True))\<lparr>http_Method := ''GET''\<rparr>))) = 405
   \<and> dispatched (snd (handleNotification headless_linux parse_whole_seconds
       ((notify_request (Some ''20s'') (Some True))\<lparr>http_Method := ''GET''\<rparr>))) = 0"
    by blast
  from C7_notify_endpoint_responses [of "notify_request None (Some True)"
      headless_linux parse_whole_seconds] bad
  have two: "status (fst (handleNotification headless_linux parse_whole_seconds
       (notify_request None (Some True)))) = 400
   \<and> dispatched (snd (handleNotification headless_linux parse_whole_seconds
       (notify_request None (Some True)))) = 0"
    by blast
  from C7_notify_endpoint_responses [of "notify_request (Some ''20s'') (Some True)"
      headless_linux parse_whole_seconds "?j (Some ''20s'')" "''sleep 20''" "''20s''" "20 * Second"] ok
  have three: "fst (handleNotification headless_linux parse_whole_seconds
       (notify_request (Some ''20s'') (Some True))) =
        \<lparr>status = 200,
         body = JSON [(''status'', ''success''), (''message'', ''Notification sent'')]\<rparr>
   \<and> dispatched (snd (handleNotification headless_linux parse_whole_seconds
       (notify_request (Some ''20s'') (Some True)))) = 1"
    by blast
  from one two three show ?thesis
    by blast
qed

subsection \<open>The \<open>success\<close> member of a request\<close>

text \<open>
  C2. The specification says that a request without \<open>success\<close> is reported as a success. The
  handler decodes into a Go \<open>bool\<close>, whose zero value is \<open>false\<close>: the specification's
  example request, sent without \<open>success\<close>, is announced as failed.
\<close>

theorem C2_counterexample:
  "statuses (snd (handleNotification headless_linux parse_whole_seconds
      (notify_request (Some ''20s'') None))) = [''failed'']"
  by (simp add: request_defs Second_def maxDuration_def)

text \<open>
  C2, as the source has it. For every accepted request the notification says
  \<open>completed\<close> exactly when the body carries \<open>success: true\<close>; a request that leaves
  \<open>success\<close> out is announced as failed.
\<close>

theorem C2_omitted_success_reports_failure:
  assumes "http_Method r = ''POST''" and "http_Body r = Some j"
    and "json_command j = Some cmd" and "cmd \<noteq> []"
    and "json_duration j = Some ds" and "ds \<noteq> []" and "pd ds = Some d"
  shows "statuses (snd (handleNotification p pd r)) =
           [if json_success j = Some True then ''completed'' else ''failed'']
       \<and> (json_success j = None \<longrightarrow>
            statuses (snd (handleNotification p pd r)) = [''failed''])"
  by (simp add: handleNotification_accepted [where pd = pd and ds = ds, OF assms])

theorem C2_witness:
  "statuses (snd (handleNotification headless_linux parse_whole_seconds
      \<lparr>http_Method = ''POST'',
       http_Body = Some \<lparr>json_command = Some ''make'', json_container_name = None,
                         json_duration = Some ''5s'', json_success = None,
                         json_start_time = None\<rparr>\<rparr>)) = [''failed'']"
proof -
  let ?j = "\<lparr>json_command = Some ''make'', json_container_name = None,
      json_duration = Some ''5s'', json_success = None, json_start_time = None\<rparr>"
  let ?r = "\<lparr>http_Method = ''POST'', http_Body = Some ?j\<rparr>"
  have h: "http_Method ?r = ''POST''" "http_Body ?r = Some ?j"
    "json_command ?j = Some ''make''" "''make'' \<noteq> []"
    "json_duration ?j = Some ''5s''" "''5s'' \<noteq> []"
    "parse_whole_seconds ''5s'' = Some (5 * Second)"
    by (simp_all add: parse_whole_seconds_def Second_def maxDuration_def)
  have n: "json_success ?j = None"
    by simp
  from C2_omitted_success_reports_failure
    [where pd = parse_whole_seconds and ds = "''5s''" and p = headless_linux, OF h] n
  show ?thesis
    by blast
qed

subsection \<open>The gate of each event source\<close>

lemma dispatched_executeCommand:
  "dispatched (executeCommand p command args t0 t1 err) =
     (if MIN_DURATION \<le> time_Since t1 t0 then 1 else 0)"
  by (simp add: executeCommand_def Let_def)

text \<open>
  C1. The specification says that the three sources apply one gate, the specification's
  \<open>ShouldNotify\<close>. With notifications switched off and a duration of twenty seconds the
  gate is closed; the Docker path dispatches nothing, but the direct-execution path and
  the HTTP path both dispatch.
\<close>

theorem C1_counterexample:
  "dispatched (snd (handleExecDie (Some quiet_config) headless_linux (120 + 20 * Second)
       one_running (exec_die_event ''0123456789abcdef'' ''c1'' ''0''))) = 0
   \<and> dispatched (executeCommand headless_linux ''sleep'' [''20''] 120 (120 + 20 * Second) None) = 1
   \<and> dispatched (snd (handleNotification headless_linux parse_whole_seconds
       (notify_request (Some ''20s'') (Some True)))) = 1
   \<and> \<not> spec_ShouldNotify (20 * Second) quiet_config"
proof (intro conjI)
  show "dispatched (snd (handleExecDie (Some quiet_config) headless_linux (120 + 20 * Second)
       one_running (exec_die_event ''0123456789abcdef'' ''c1'' ''0''))) = 0"
    by (simp add: handleExecDie_dispatched sample_defs config_defs)
  show "dispatched (executeCommand headless_linux ''sleep'' [''20''] 120 (120 + 20 * Second) None) = 1"
    by (simp add: executeCommand_def time_defs config_defs)
  show "dispatched (snd (handleNotification headless_linux parse_whole_seconds
       (notify_request (Some ''20s'') (Some True)))) = 1"
    by (simp add: notify_request_def handleNotification_def Decode_def StatusOK_def
        parse_whole_seconds_def Second_def maxDuration_def Let_def)
  show "\<not> spec_ShouldNotify (20 * Second) quiet_config"
    by (simp add: config_defs)
qed

text \<open>
  C1, as the source has it. Each source has its own test. The Docker path, for a die fact
  with a record, dispatches exactly when a configuration is loaded and the
  specification's gate holds of the measured duration. The direct-execution path
  dispatches exactly when the duration is at least fifteen seconds, a constant that no
  configuration changes. The HTTP path dispatches for every request it accepts, whatever
  the duration and the configuration.
\<close>

theorem C1_each_source_has_its_own_gate:
  "(map_of (execMap dm) (attr ev ''execID'') = Some info \<longrightarrow>
      dispatched (snd (handleExecDie cfg p now dm ev)) =
        (case cfg of
           None \<Rightarrow> 0
         | Some c \<Rightarrow> if spec_ShouldNotify (time_Since now (StartTime info)) c then 1 else 0))
   \<and> dispatched (executeCommand p command args t0 t1 err) =
        (if 15 * Second \<le> time_Since t1 t0 then 1 else 0)
   \<and> (http_Method r = ''POST'' \<and> http_Body r = Some j
        \<and> json_command j = Some cmd \<and> cmd \<noteq> []
        \<and> json_duration j = Some ds \<and> ds \<noteq> [] \<and> pd ds = Some d \<longrightarrow>
      dispatched (snd (handleNotification p pd r)) = 1)"
proof (intro conjI impI)
  assume "map_of (execMap dm) (attr ev ''execID'') = Some info"
  then show "dispatched (snd (handleExecDie cfg p now dm ev)) =
        (case cfg of
           None \<Rightarrow> 0
         | Some c \<Rightarrow> if spec_ShouldNotify (time_Since now (StartTime info)) c then 1 else 0)"
    by (cases cfg) (simp_all add: handleExecDie_dispatched spec_ShouldNotify_def)
next
  show "dispatched (executeCommand p command args t0 t1 err) =
        (if 15 * Second \<le> time_Since t1 t0 then 1 else 0)"
    by (simp add: dispatched_executeCommand MIN_DURATION_def)
next
  assume "http_Method r = ''POST'' \<and> http_Body r = Some j
        \<and> json_command j = Some cmd \<and> cmd \<noteq> []
        \<and> json_duration j = Some ds \<and> ds \<noteq> [] \<and> pd ds = Some d"
  then have parts: "http_Method r = ''POST''" "http_Body r = Some j"
    "json_command j = Some cmd" "cmd \<noteq> []"
    "json_duration j = Some ds" "ds \<noteq> []" "pd ds = Some d"
    by blast+
  show "dispatched (snd (handleNotification p pd r)) = 1"
    by (simp add: handleNotification_accepted [where pd = pd and ds = ds, OF parts])
qed

theorem C1_witness:
  "dispatched (snd (handleExecDie (Some getDefaultConfig) headless_linux (120 + 20 * Second)
       one_running (exec_die_event ''0123456789abcdef'' ''c1'' ''0''))) = 1
   \<and> spec_ShouldNotify (time_Since (120 + 20 * Second) 120) getDefaultConfig
   \<and> dispatched (snd (handleNotification headless_linux parse_whole_seconds
       (notify_request (Some ''5s'') (Some True)))) = 1
   \<and> \<not> spec_ShouldNotify (5 * Second) getDefaultConfig"
proof -
  let ?j = "\<lparr>json_command = Some ''sleep 20'', json_container_name = Some ''devbox'',
      json_duration = Some ''5s'', json_success = Some True, json_start_time = None\<rparr>"
  have h: "map_of (execMap one_running) (attr (exec_die_event ''0123456789abcdef'' ''c1'' ''0'') ''execID'')
      = Some \<lparr>ContainerID = ''c1'', ContainerName = ''devbox'', Command = ''sleep 20'', StartTime = 120\<rparr>"
    by (simp add: sample_defs)
  have g: "spec_ShouldNotify (time_Since (120 + 20 * Second) 120) getDefaultConfig"
    by (simp add: time_defs config_defs)
  have ng: "\<not> spec_ShouldNotify (5 * Second) getDefaultConfig"
    by (simp add: time_defs config_defs)
  have ok: "http_Method (notify_request (Some ''5s'') (Some True)) = ''POST''
      \<and> http_Body (notify_request (Some ''5s'') (Some True)) = Some ?j
      \<and> json_command ?j = Some ''sleep 20'' \<and> ''sleep 20'' \<noteq> []
      \<and> json_duration ?j = Some ''5s'' \<and> ''5s'' \<noteq> []
      \<and> parse_whole_seconds ''5s'' = Some (5 * Second)"
    by (simp add: notify_request_def parse_whole_seconds_def Second_def maxDuration_def)
  from C1_each_source_has_its_own_gate [of one_running
      "exec_die_event ''0123456789abcdef'' ''c1'' ''0''"
      "\<lparr>ContainerID = ''c1'', ContainerName = ''devbox'', Command = ''sleep 20'', StartTime = 120\<rparr>"
      "Some getDefaultConfig" headless_linux "120 + 20 * Second"
      "''sleep''" "[]" 0 0 None
      "notify_request (Some ''5s'') (Some True)" ?j "''sleep 20''" "''5s''" parse_whole_seconds
      "5 * Second"] h g ok ng
  show ?thesis
    by simp
qed

subsection \<open>The exit status of the wrapper\<close>

text \<open>
  C10. The direct-execution path ends the process with status 0 when \<open>cmd.Run\<close> returns no
  error and with status 1 when it returns one, whatever status the child left with. The
  exit is the last effect: the notification, when the duration reaches the threshold, is
  dispatched before it and says \<open>failed\<close> for a failed child.
\<close>

theorem C10_wrapper_exit_status:
  "(\<exists>pre. executeCommand p command args t0 t1 err = pre @ [Exit (if err = None then 0 else 1)]
       \<and> filter is_exit pre = []
       \<and> statuses pre =
           (if MIN_DURATION \<le> time_Since t1 t0
            then [if err = None then ''completed'' else ''failed''] else []))
   \<and> last (executeCommand p command args t0 t1 None) = Exit 0
   \<and> last (executeCommand p command args t0 t1 (Some (ExitError n))) = Exit 1
   \<and> last (executeCommand p command args t0 t1 (Some (OtherError e))) = Exit 1"
proof (intro conjI)
  let ?pre = "Printf_Executing command args #
     (if MIN_DURATION \<le> time_Since t1 t0
      then sendNotification p command (time_Since t1 t0) (err = None) else [])"
  have shape: "executeCommand p command args t0 t1 err = ?pre @ [Exit (if err = None then 0 else 1)]"
    by (simp add: executeCommand_def Let_def)
  have quiet: "filter is_exit ?pre = []"
    by (simp add: no_exit_sendNotification)
  have said: "statuses ?pre =
      (if MIN_DURATION \<le> time_Since t1 t0
       then [if err = None then ''completed'' else ''failed''] else [])"
    by simp
  from shape quiet said
  show "\<exists>pre. executeCommand p command args t0 t1 err = pre @ [Exit (if err = None then 0 else 1)]
       \<and> filter is_exit pre = []
       \<and> statuses pre =
           (if MIN_DURATION \<le> time_Since t1 t0
            then [if err = None then ''completed'' else ''failed''] else [])"
    by blast
  show "last (executeCommand p command args t0 t1 None) = Exit 0"
    by (simp add: last_executeCommand)
  show "last (executeCommand p command args t0 t1 (Some (ExitError n))) = Exit 1"
    by (simp add: last_executeCommand)
  show "last (executeCommand p command args t0 t1 (Some (OtherError e))) = Exit 1"
    by (simp add: last_executeCommand)
qed

subsection \<open>Native alerts\<close>





end
